theory Spec2Isabelle
  imports Main "HOL-Library.Word"
begin

section \<open>Outcomes of a Go call\<close>

text \<open>
  A function of \<^verbatim>\<open>visor/readable.go\<close> ends in one of three ways: it returns its value
  (with a nil error where it has an error result), it returns an error made by
  \<^verbatim>\<open>errors.New\<close> (the value beside it is the zero value of its type), or it panics
  (\<^verbatim>\<open>log.Panic\<close>, or an index out of range). The message is kept as the source
  writes it.
\<close>

datatype 'a result = is_Ok: Ok 'a | is_Error: Error string | is_Panic: Panic string

section \<open>Data model\<close>

type_synonym byte = "8 word"
type_synonym uint8 = "8 word"
type_synonym uint32 = "32 word"
type_synonym uint64 = "64 word"

text \<open>
  Modelled from the spec: the types of the packages \<^verbatim>\<open>cipher\<close> and \<^verbatim>\<open>coin\<close> are
  imported by the source and not declared in it. A hash (\<^verbatim>\<open>cipher.SHA256\<close>) and a
  signature (\<^verbatim>\<open>cipher.Sig\<close>) are fixed-length binary values, here their bytes; an
  address (\<^verbatim>\<open>cipher.Address\<close>) is a binary value with a checksummed text form, here its
  bytes. The zero value of a Go array is all zero bytes.
\<close>

type_synonym SHA256 = "byte list"
type_synonym Sig = "byte list"
type_synonym Address = "byte list"

definition SHA256_zero :: SHA256 where
  "SHA256_zero = replicate 32 0"

definition Sig_zero :: Sig where
  "Sig_zero = replicate 65 0"

definition Address_zero :: Address where
  "Address_zero = replicate 21 0"

text \<open>
  Modelled from the spec: \<^verbatim>\<open>coin.TransactionOutput\<close> (destination address, coin
  amount, hour amount) and \<^verbatim>\<open>coin.Transaction\<close> (length, type tag, inner hash, ordered
  signatures, ordered input references, ordered outputs; the content hash is derived by
  the method \<^verbatim>\<open>Hash\<close>). The field names are the ones the source reads and writes.
\<close>

record TransactionOutput =
  Address :: Address
  Coins :: uint64
  Hours :: uint64

definition TransactionOutput_zero :: TransactionOutput where
  "TransactionOutput_zero = \<lparr>Address = Address_zero, Coins = 0, Hours = 0\<rparr>"

record Transaction =
  Length :: uint32
  Type :: uint8
  InnerHash :: SHA256
  Sigs :: "Sig list"
  In :: "SHA256 list"
  Out :: "TransactionOutput list"

text \<open>\<^verbatim>\<open>coin.Transaction{}\<close> and \<^verbatim>\<open>var tx coin.Transaction\<close>: nil slices have length 0.\<close>

definition Transaction_zero :: Transaction where
  "Transaction_zero =
     \<lparr>Length = 0, Type = 0, InnerHash = SHA256_zero, Sigs = [], In = [], Out = []\<rparr>"

subsection \<open>Transaction status (lines 38--79)\<close>

record TransactionStatus =
  Unconfirmed :: bool
  Unknown :: bool
  Confirmed :: bool
  Height :: uint64

definition NewUnconfirmedTransactionStatus :: TransactionStatus where
  "NewUnconfirmedTransactionStatus =
     \<lparr>Unconfirmed = True, Unknown = False, Confirmed = False, Height = 0\<rparr>"

definition NewUnknownTransactionStatus :: TransactionStatus where
  "NewUnknownTransactionStatus =
     \<lparr>Unconfirmed = False, Unknown = True, Confirmed = False, Height = 0\<rparr>"

text \<open>\<^verbatim>\<open>log.Panic\<close> logs the message and panics; the function has no error result.\<close>

definition NewConfirmedTransactionStatus :: "uint64 \<Rightarrow> TransactionStatus result" where
  "NewConfirmedTransactionStatus height =
     (if height = 0 then Panic ''Invalid confirmed transaction height''
      else Ok \<lparr>Unconfirmed = False, Unknown = False, Confirmed = True, Height = height\<rparr>)"

subsection \<open>Go statements used by the mappers and the codec\<close>

text \<open>
  Sequencing of two steps: an error or a panic of the first step ends the function.
\<close>

definition then_do :: "'a result \<Rightarrow> ('a \<Rightarrow> 'b result) \<Rightarrow> 'b result" where
  "then_do r f = (case r of Ok x \<Rightarrow> f x | Error e \<Rightarrow> Error e | Panic m \<Rightarrow> Panic m)"

text \<open>
  \<^verbatim>\<open>xs[i]\<close> read and \<^verbatim>\<open>xs[i] = v\<close> written: Go panics when \<open>i\<close> is not below
  \<^verbatim>\<open>len(xs)\<close>.
\<close>

definition index_get :: "'a list \<Rightarrow> nat \<Rightarrow> 'a result" where
  "index_get xs i = (if i < length xs then Ok (xs ! i) else Panic ''index out of range'')"

definition index_set :: "'a list \<Rightarrow> nat \<Rightarrow> 'a \<Rightarrow> 'a list result" where
  "index_set xs i v = (if i < length xs then Ok (xs[i := v]) else Panic ''index out of range'')"

text \<open>
  A \<^verbatim>\<open>for ... range\<close> loop over the listed iterations, threading the variables the body
  assigns; a \<^verbatim>\<open>return\<close> or a panic in the body leaves the loop. The iterations of
  \<^verbatim>\<open>for i, _ := range xs\<close> are \<open>[0..<length xs]\<close>, those of \<^verbatim>\<open>for i, x := range xs\<close>
  are \<open>enumerate 0 xs\<close>.
\<close>

fun for_each :: "('i \<Rightarrow> 's \<Rightarrow> 's result) \<Rightarrow> 'i list \<Rightarrow> 's \<Rightarrow> 's result" where
  "for_each body [] s = Ok s"
| "for_each body (i # is) s =
     (case body i s of
        Ok s' \<Rightarrow> for_each body is s'
      | Error e \<Rightarrow> Error e
      | Panic m \<Rightarrow> Panic m)"

subsection \<open>Readable mappers (lines 99--193)\<close>

text \<open>
  The methods \<^verbatim>\<open>Sig.Hex\<close>, \<^verbatim>\<open>SHA256.Hex\<close>, \<^verbatim>\<open>Address.String\<close> and
  \<^verbatim>\<open>Transaction.Hash\<close> belong to the packages \<^verbatim>\<open>cipher\<close> and \<^verbatim>\<open>coin\<close>; the mappers
  take them as parameters.
\<close>

record ReadableTransactionOutput =
  RTO_Address :: string
  RTO_Coins :: uint64
  RTO_Hours :: uint64

definition ReadableTransactionOutput_zero :: ReadableTransactionOutput where
  "ReadableTransactionOutput_zero = \<lparr>RTO_Address = [], RTO_Coins = 0, RTO_Hours = 0\<rparr>"

definition NewReadableTransactionOutput ::
  "(Address \<Rightarrow> string) \<Rightarrow> TransactionOutput \<Rightarrow> ReadableTransactionOutput" where
  "NewReadableTransactionOutput Address_String t =
     \<lparr>RTO_Address = Address_String (Address t), RTO_Coins = Coins t, RTO_Hours = Hours t\<rparr>"

record ReadableTransaction =
  RT_Length :: uint32
  RT_Type :: uint8
  RT_Hash :: string
  RT_InnerHash :: string
  RT_Sigs :: "string list"
  RT_In :: "string list"
  RT_Out :: "ReadableTransactionOutput list"

text \<open>
  Lines 148--173. Each of the three loops reads element \<open>i\<close> of the source slice and
  writes element \<open>i\<close> of a slice made with the source's length. The local \<^verbatim>\<open>in\<close> of the
  source is \<open>ins\<close> here.
\<close>

definition NewReadableTransaction ::
  "(Sig \<Rightarrow> string) \<Rightarrow> (SHA256 \<Rightarrow> string) \<Rightarrow> (Address \<Rightarrow> string) \<Rightarrow>
   (Transaction \<Rightarrow> SHA256) \<Rightarrow> Transaction \<Rightarrow> ReadableTransaction result" where
  "NewReadableTransaction Sig_Hex SHA256_Hex Address_String Transaction_Hash t =
     then_do
       (for_each
          (\<lambda>i sigs. then_do (index_get (Sigs t) i) (\<lambda>x. index_set sigs i (Sig_Hex x)))
          [0..<length (Sigs t)] (replicate (length (Sigs t)) []))
       (\<lambda>sigs.
     then_do
       (for_each
          (\<lambda>i ins. then_do (index_get (In t) i) (\<lambda>x. index_set ins i (SHA256_Hex x)))
          [0..<length (In t)] (replicate (length (In t)) []))
       (\<lambda>ins.
     then_do
       (for_each
          (\<lambda>i out. then_do (index_get (Out t) i)
             (\<lambda>x. index_set out i (NewReadableTransactionOutput Address_String x)))
          [0..<length (Out t)] (replicate (length (Out t)) ReadableTransactionOutput_zero))
       (\<lambda>out.
     Ok \<lparr>RT_Length = Length t, RT_Type = Type t,
         RT_Hash = SHA256_Hex (Transaction_Hash t),
         RT_InnerHash = SHA256_Hex (InnerHash t),
         RT_Sigs = sigs, RT_In = ins, RT_Out = out\<rparr>)))"

record BlockHeader =
  Version :: uint32
  Time :: uint64
  BkSeq :: uint64
  Fee :: uint64
  PrevHash :: SHA256
  BodyHash :: SHA256

record ReadableBlockHeader =
  RBH_Version :: uint32
  RBH_Time :: uint64
  RBH_BkSeq :: uint64
  RBH_Fee :: uint64
  RBH_PrevHash :: string
  RBH_BodyHash :: string

definition NewReadableBlockHeader ::
  "(SHA256 \<Rightarrow> string) \<Rightarrow> BlockHeader \<Rightarrow> ReadableBlockHeader" where
  "NewReadableBlockHeader SHA256_Hex b =
     \<lparr>RBH_Version = Version b, RBH_Time = Time b, RBH_BkSeq = BkSeq b, RBH_Fee = Fee b,
      RBH_PrevHash = SHA256_Hex (PrevHash b), RBH_BodyHash = SHA256_Hex (BodyHash b)\<rparr>"

subsection \<open>Chain snapshot (lines 13--29)\<close>

text \<open>
  Modelled from the spec: the visor, its chain and its pool of unconfirmed transactions
  are declared outside the source. The chain holds its blocks, the last one the head,
  and the pool of unspent outputs; \<^verbatim>\<open>Head()\<close> reads the current head, and a chain with
  no head yet is a precondition violation signalled by the chain (a panic). The
  snapshot only takes \<^verbatim>\<open>len\<close> of the two pools, so their entries stay abstract.
\<close>

record Block =
  Head :: BlockHeader
  Body :: "Transaction list"

record 'ux Blockchain =
  Blocks :: "Block list"
  Unspent_Pool :: "'ux list"

record ('ux, 'utx) Visor =
  Visor_Blockchain :: "'ux Blockchain"
  Visor_Unconfirmed_Txns :: "'utx list"

definition Blockchain_Head :: "'ux Blockchain \<Rightarrow> Block result" where
  "Blockchain_Head bc =
     (if Blocks bc = [] then Panic ''index out of range'' else Ok (last (Blocks bc)))"

record BlockchainMetadata =
  BM_Head :: ReadableBlockHeader
  BM_Unspents :: uint64
  BM_Unconfirmed :: uint64

text \<open>
  The function receives a pointer to the visor. The model returns the visor next to the
  result, so that what the call leaves behind is part of what is proved.
\<close>

definition NewBlockchainMetadata ::
  "(SHA256 \<Rightarrow> string) \<Rightarrow> ('ux, 'utx) Visor \<Rightarrow>
   BlockchainMetadata result \<times> ('ux, 'utx) Visor" where
  "NewBlockchainMetadata SHA256_Hex v =
     (then_do (Blockchain_Head (Visor_Blockchain v))
        (\<lambda>blk. let head = Head blk in
           Ok \<lparr>BM_Head = NewReadableBlockHeader SHA256_Hex head,
               BM_Unspents = of_nat (length (Unspent_Pool (Visor_Blockchain v))),
               BM_Unconfirmed = of_nat (length (Visor_Unconfirmed_Txns v))\<rparr>),
      v)"

subsection \<open>Transaction outputs to and from JSON (lines 225--250)\<close>

record TransactionOutputJSON =
  OJ_Address :: string
  OJ_Coins :: uint64
  OJ_Hours :: uint64

definition TransactionOutputJSON_zero :: TransactionOutputJSON where
  "TransactionOutputJSON_zero = \<lparr>OJ_Address = [], OJ_Coins = 0, OJ_Hours = 0\<rparr>"

definition NewTransactionOutputJSON ::
  "(Address \<Rightarrow> string) \<Rightarrow> TransactionOutput \<Rightarrow> TransactionOutputJSON" where
  "NewTransactionOutputJSON Address_String ux =
     (let o1 = TransactionOutputJSON_zero;
          o2 = o1\<lparr>OJ_Address := Address_String (Address ux)\<rparr>;
          o3 = o2\<lparr>OJ_Coins := Coins ux\<rparr>;
          o4 = o3\<lparr>OJ_Hours := Hours ux\<rparr>
      in o4)"

text \<open>
  \<^verbatim>\<open>cipher.DecodeBase58Address\<close> is a parameter: \<open>None\<close> is its error. The parameter
  \<^verbatim>\<open>in\<close> of the source is \<open>inp\<close> here.
\<close>

definition TransactionOutputFromJSON ::
  "(string \<Rightarrow> Address option) \<Rightarrow> TransactionOutputJSON \<Rightarrow> TransactionOutput result" where
  "TransactionOutputFromJSON DecodeBase58Address inp =
     (let tx = TransactionOutput_zero in
      case DecodeBase58Address (OJ_Address inp) of
        None \<Rightarrow> Error ''Adress decode fail''
      | Some addr \<Rightarrow>
          (let tx1 = tx\<lparr>Address := addr\<rparr>;
               tx2 = tx1\<lparr>Coins := OJ_Coins inp\<rparr>;
               tx3 = tx2\<lparr>Hours := OJ_Hours inp\<rparr>
           in Ok tx3))"

subsection \<open>Transactions to and from JSON (lines 252--325)\<close>

record TransactionJSON =
  J_Hash :: string
  J_InnerHash :: string
  J_Sigs :: "string list"
  J_In :: "string list"
  J_Out :: "TransactionOutputJSON list"

text \<open>\<^verbatim>\<open>var o TransactionJSON\<close>: empty strings and nil slices.\<close>

definition TransactionJSON_zero :: TransactionJSON where
  "TransactionJSON_zero = \<lparr>J_Hash = [], J_InnerHash = [], J_Sigs = [], J_In = [], J_Out = []\<rparr>"

text \<open>
  Lines 261--288. \<^verbatim>\<open>Transaction.Verify\<close> and \<^verbatim>\<open>json.MarshalIndent\<close> are parameters,
  \<open>Some\<close> the error of the first and \<open>None\<close> the error of the second. The function has
  no error result: it returns the document or panics. The local \<^verbatim>\<open>o\<close> of the source
  is \<open>o0\<close>, ..., \<open>o6\<close> as it is assigned, and \<open>oj\<close> inside the loops. The fields \<^verbatim>\<open>Hash\<close> and
  \<^verbatim>\<open>InnerHash\<close> of the document are never assigned.
\<close>

definition TransactionToJSON ::
  "(Transaction \<Rightarrow> string option) \<Rightarrow> (Sig \<Rightarrow> string) \<Rightarrow> (SHA256 \<Rightarrow> string) \<Rightarrow>
   (Address \<Rightarrow> string) \<Rightarrow> (TransactionJSON \<Rightarrow> string option) \<Rightarrow>
   Transaction \<Rightarrow> string result" where
  "TransactionToJSON Verify Sig_Hex SHA256_Hex Address_String MarshalIndent tx =
     (let o0 = TransactionJSON_zero in
      if Verify tx \<noteq> None then Panic ''Transaction Invalid: Cannot serialize to JSON''
      else
        (let o1 = o0\<lparr>J_Sigs := replicate (length (Sigs tx)) []\<rparr>;
             o2 = o1\<lparr>J_In := replicate (length (In tx)) []\<rparr>;
             o3 = o2\<lparr>J_Out := replicate (length (Out tx)) TransactionOutputJSON_zero\<rparr>
         in
         then_do
           (for_each
              (\<lambda>(i, sig) oj. then_do (index_set (J_Sigs oj) i (Sig_Hex sig))
                 (\<lambda>l. Ok (oj\<lparr>J_Sigs := l\<rparr>)))
              (enumerate 0 (Sigs tx)) o3)
           (\<lambda>o4.
         then_do
           (for_each
              (\<lambda>(i, x) oj. then_do (index_set (J_In oj) i (SHA256_Hex x))
                 (\<lambda>l. Ok (oj\<lparr>J_In := l\<rparr>)))
              (enumerate 0 (In tx)) o4)
           (\<lambda>o5.
         then_do
           (for_each
              (\<lambda>(i, y) oj. then_do
                 (index_set (J_Out oj) i (NewTransactionOutputJSON Address_String y))
                 (\<lambda>l. Ok (oj\<lparr>J_Out := l\<rparr>)))
              (enumerate 0 (Out tx)) o5)
           (\<lambda>o6.
         case MarshalIndent o6 of
           None \<Rightarrow> Panic ''Cannot serialize transaction as JSON''
         | Some b \<Rightarrow> Ok b)))))"

text \<open>
  Lines 299--324, the part of \<^verbatim>\<open>TransactionFromJSON\<close> after the parse. The source
  names two documents it never declares, \<^verbatim>\<open>o\<close> and \<^verbatim>\<open>txIn\<close>; they are the two
  arguments \<open>oj\<close> and \<open>txIn\<close> here. Both loops have the same body: it reads \<^verbatim>\<open>o.In[i]\<close>, decodes it
  with \<^verbatim>\<open>SigFromHex\<close> (a parameter, \<open>None\<close> its error), returns the error
  "invalid signature" with the zero transaction when that fails, and writes
  \<^verbatim>\<open>tx.Sigs[i]\<close>. The first loop runs over \<^verbatim>\<open>txIn.Sigs\<close>, the second over
  \<^verbatim>\<open>txIn.In\<close>. No loop runs over the outputs. \<^verbatim>\<open>Transaction.Size\<close> is a
  parameter. The last statement returns the zero transaction and a nil error.
\<close>

definition decode_loop_body ::
  "(string \<Rightarrow> Sig option) \<Rightarrow> TransactionJSON \<Rightarrow> nat \<Rightarrow> Transaction \<Rightarrow> Transaction result" where
  "decode_loop_body SigFromHex oj i tx =
     then_do (index_get (J_In oj) i)
       (\<lambda>s. case SigFromHex s of
               None \<Rightarrow> Error ''invalid signature''
             | Some sig2 \<Rightarrow>
                 then_do (index_set (Sigs tx) i sig2) (\<lambda>l. Ok (tx\<lparr>Sigs := l\<rparr>)))"

definition TransactionFromJSON_steps ::
  "(string \<Rightarrow> Sig option) \<Rightarrow> (Transaction \<Rightarrow> uint32) \<Rightarrow>
   TransactionJSON \<Rightarrow> TransactionJSON \<Rightarrow> Transaction result" where
  "TransactionFromJSON_steps SigFromHex Transaction_Size oj txIn =
     (let tx0 = Transaction_zero;
          tx1 = tx0\<lparr>Sigs := replicate (length (J_Sigs oj)) Sig_zero\<rparr>;
          tx2 = tx1\<lparr>In := replicate (length (J_In oj)) SHA256_zero\<rparr>;
          tx3 = tx2\<lparr>Out := replicate (length (J_Out oj)) TransactionOutput_zero\<rparr>
      in
      then_do (for_each (decode_loop_body SigFromHex oj) [0..<length (J_Sigs txIn)] tx3)
        (\<lambda>tx4.
      then_do (for_each (decode_loop_body SigFromHex oj) [0..<length (J_In txIn)] tx4)
        (\<lambda>tx5.
      let tx6 = tx5\<lparr>Length := Transaction_Size tx5\<rparr>;
          tx7 = tx6\<lparr>Type := 0\<rparr>
      in Ok Transaction_zero)))"

text \<open>
  Lines 290--297 and the call of the rest. \<^verbatim>\<open>json.Unmarshal\<close> receives the document
  \<^verbatim>\<open>TxIn\<close> by value, not a pointer to it: whatever it does, \<^verbatim>\<open>TxIn\<close> keeps its zero
  value, and all the call hands back is its error (\<open>None\<close> is nil). When the error is
  not nil the source makes an error value and drops it; nothing is returned there. The
  only document in scope is \<^verbatim>\<open>TxIn\<close>, so \<^verbatim>\<open>o\<close> and \<^verbatim>\<open>txIn\<close> are read as it.
\<close>

definition TransactionFromJSON ::
  "(string \<Rightarrow> TransactionJSON \<Rightarrow> string option) \<Rightarrow> (string \<Rightarrow> Sig option) \<Rightarrow>
   (Transaction \<Rightarrow> uint32) \<Rightarrow> string \<Rightarrow> Transaction result" where
  "TransactionFromJSON json_Unmarshal SigFromHex Transaction_Size str =
     (let TxIn = TransactionJSON_zero;
          err = json_Unmarshal str TxIn;
          dropped = (if err \<noteq> None then Some ''cannot deserialize'' else None)
      in TransactionFromJSON_steps SigFromHex Transaction_Size TxIn TxIn)"

section \<open>Stand-ins for the collaborators\<close>

text \<open>
  The functions above take the library calls they make as parameters, and the theorems
  below hold for every value of them. The definitions of this section are concrete
  values for those parameters, so that the functions can be run on concrete inputs.
\<close>

text \<open>
  Modelled from the spec: fixed-length lowercase-hex encode and decode for hash and
  signature values. Decoding accepts both cases of a digit, refuses a text of odd length
  or with another character, and \<^verbatim>\<open>SigFromHex\<close> refuses what is not 65 bytes long.
\<close>

definition hex_digit :: "nat \<Rightarrow> char" where
  "hex_digit n = ''0123456789abcdef'' ! n"

definition hex_encode :: "byte list \<Rightarrow> string" where
  "hex_encode bs =
     concat (map (\<lambda>b. [hex_digit (unat b div 16), hex_digit (unat b mod 16)]) bs)"

definition from_hex_char :: "char \<Rightarrow> nat option" where
  "from_hex_char c =
     (let n = (of_char c :: nat) in
      if 48 \<le> n \<and> n \<le> 57 then Some (n - 48)
      else if 97 \<le> n \<and> n \<le> 102 then Some (n - 87)
      else if 65 \<le> n \<and> n \<le> 70 then Some (n - 55)
      else None)"

fun hex_decode :: "string \<Rightarrow> byte list option" where
  "hex_decode [] = Some []"
| "hex_decode [c] = None"
| "hex_decode (c # d # cs) =
     (case from_hex_char c of
        None \<Rightarrow> None
      | Some h \<Rightarrow>
          (case from_hex_char d of
             None \<Rightarrow> None
           | Some l \<Rightarrow>
               (case hex_decode cs of
                  None \<Rightarrow> None
                | Some bs \<Rightarrow> Some (of_nat (16 * h + l) # bs))))"

definition SigFromHex_hex :: "string \<Rightarrow> Sig option" where
  "SigFromHex_hex s =
     (case hex_decode s of
        None \<Rightarrow> None
      | Some b \<Rightarrow> if length b = 65 then Some b else None)"

text \<open>
  Modelled from the spec: refusals of the external verification of a transaction that
  can be read off its structure (no input, no output, a count of signatures that
  differs from the count of inputs, a duplicate input). The external verification also
  checks the inner hash and the signatures over it; that part is cryptographic and is
  not modelled. So this stand-in is used only where it refuses: what it refuses the
  library refuses too, and what it lets through the library may still refuse.
\<close>

definition Verify_structure :: "Transaction \<Rightarrow> string option" where
  "Verify_structure t =
     (if In t = [] then Some ''No inputs''
      else if Out t = [] then Some ''No outputs''
      else if length (Sigs t) \<noteq> length (In t) then Some ''Invalid number of signatures''
      else if \<not> distinct (In t) then Some ''Duplicate spend''
      else None)"

text \<open>
  Modelled from the spec: the length of a transaction is the byte size of its canonical
  encoding. The layout assumed: the length (4 bytes), the type (1), the inner hash (32),
  and three sequences, each a 4-byte count and its elements (a signature 65 bytes, an
  input 32, an output 21 + 8 + 8).
\<close>

definition Transaction_Size_bytes :: "Transaction \<Rightarrow> uint32" where
  "Transaction_Size_bytes t =
     of_nat (4 + 1 + 32 + (4 + 65 * length (Sigs t)) + (4 + 32 * length (In t))
             + (4 + 37 * length (Out t)))"

text \<open>
  Modelled from the spec: an address has a checksummed text form, and decoding refuses a
  text whose checksum does not match. The library's alphabet and checksum are not in the
  source; this stand-in writes the address and one checksum byte (the sum of its bytes)
  in hex, and keeps the contract: what it encodes it decodes, and a text with a wrong
  checksum is refused.
\<close>

definition Address_checksum :: "Address \<Rightarrow> byte" where
  "Address_checksum a = sum_list a"

definition Address_String_hex :: "Address \<Rightarrow> string" where
  "Address_String_hex a = hex_encode (a @ [Address_checksum a])"

definition DecodeAddress_hex :: "string \<Rightarrow> Address option" where
  "DecodeAddress_hex s =
     (case hex_decode s of
        None \<Rightarrow> None
      | Some bs \<Rightarrow>
          if length bs = 22 \<and> last bs = Address_checksum (butlast bs)
          then Some (butlast bs) else None)"

text \<open>
  \<^verbatim>\<open>json.MarshalIndent(o, "", "  ")\<close> on a document: one member per line, two spaces
  for each level, an empty array as \<^verbatim>\<open>[]\<close>. The texts of a document are hex and address
  texts, which need no escaping; a number is written in decimal (a 64-bit number has at
  most 20 digits). It has no error on a document.
\<close>

fun dec_digits :: "nat \<Rightarrow> nat \<Rightarrow> string" where
  "dec_digits 0 n = []"
| "dec_digits (Suc k) n =
     (if n < 10 then [hex_digit n] else dec_digits k (n div 10) @ [hex_digit (n mod 10)])"

definition json_number :: "uint64 \<Rightarrow> string" where
  "json_number w = dec_digits 20 (unat w)"

definition json_quote :: "string \<Rightarrow> string" where
  "json_quote s = CHR 0x22 # s @ [CHR 0x22]"

definition json_member :: "string \<Rightarrow> string \<Rightarrow> string list" where
  "json_member name v = [json_quote name @ '': '' @ v]"

definition json_indent :: "string list \<Rightarrow> string list" where
  "json_indent ls = map (\<lambda>l. ''  '' @ l) ls"

fun json_commas :: "string list list \<Rightarrow> string list" where
  "json_commas [] = []"
| "json_commas [b] = b"
| "json_commas (b # bs) = butlast b @ [last b @ '',''] @ json_commas bs"

definition json_block :: "string \<Rightarrow> string \<Rightarrow> string list list \<Rightarrow> string list" where
  "json_block opening closing items =
     (if items = [] then [opening @ closing]
      else [opening] @ json_indent (json_commas items) @ [closing])"

definition json_named :: "string \<Rightarrow> string list \<Rightarrow> string list" where
  "json_named name b = (json_quote name @ '': '' @ hd b) # tl b"

definition json_output :: "TransactionOutputJSON \<Rightarrow> string list" where
  "json_output x =
     json_block ''{'' ''}''
       [json_member ''address'' (json_quote (OJ_Address x)),
        json_member ''coins'' (json_number (OJ_Coins x)),
        json_member ''hours'' (json_number (OJ_Hours x))]"

fun json_lines :: "string list \<Rightarrow> string" where
  "json_lines [] = []"
| "json_lines [l] = l"
| "json_lines (l # ls) = l @ [CHR 0x0A] @ json_lines ls"

definition MarshalIndent_json :: "TransactionJSON \<Rightarrow> string option" where
  "MarshalIndent_json d =
     Some (json_lines (json_block ''{'' ''}''
       [json_member ''hash'' (json_quote (J_Hash d)),
        json_member ''inner_hash'' (json_quote (J_InnerHash d)),
        json_named ''sigs'' (json_block ''['' '']'' (map (\<lambda>s. [json_quote s]) (J_Sigs d))),
        json_named ''in'' (json_block ''['' '']'' (map (\<lambda>s. [json_quote s]) (J_In d))),
        json_named ''out'' (json_block ''['' '']'' (map json_output (J_Out d)))]))"

text \<open>
  \<^verbatim>\<open>json.Unmarshal\<close> called with a destination that is not a pointer: the library
  returns an error for every text (a syntax error for a malformed one, and otherwise
  the error that the destination is not a pointer). The caller only compares the error
  with nil, so the stand-in has one message for both.
\<close>

definition json_Unmarshal_by_value :: "string \<Rightarrow> TransactionJSON \<Rightarrow> string option" where
  "json_Unmarshal_by_value data v = Some ''json: Unmarshal(non-pointer visor.TransactionJSON)''"

section \<open>Example transactions and documents\<close>

text \<open>
  The shape of a transaction with one signature, one input and two outputs of 100 coins
  and 5 hours and of 50 coins and 0 hours (its hash and signature are placeholders, not
  computed), and three variants that the structural check refuses: no input, two
  signatures for one input, and the same input twice.
\<close>

definition example_tx :: Transaction where
  "example_tx =
     \<lparr>Length = 0, Type = 0, InnerHash = replicate 32 0xAB,
      Sigs = [replicate 65 0x11], In = [replicate 32 0x22],
      Out = [\<lparr>Address = replicate 21 1, Coins = 100, Hours = 5\<rparr>,
             \<lparr>Address = replicate 21 2, Coins = 50, Hours = 0\<rparr>]\<rparr>"

definition example_tx_no_inputs :: Transaction where
  "example_tx_no_inputs = example_tx\<lparr>Sigs := [], In := []\<rparr>"

definition example_tx_two_signatures :: Transaction where
  "example_tx_two_signatures =
     example_tx\<lparr>Sigs := [replicate 65 0x11, replicate 65 0x12]\<rparr>"

definition example_tx_duplicate_input :: Transaction where
  "example_tx_duplicate_input =
     example_tx\<lparr>Sigs := [replicate 65 0x11, replicate 65 0x12],
                In := [replicate 32 0x22, replicate 32 0x22]\<rparr>"

text \<open>
  The document of a well-formed transaction as a parse would fill it: one signature of
  65 bytes and one input of 32 bytes in hex, no output.
\<close>

definition example_document :: TransactionJSON where
  "example_document =
     \<lparr>J_Hash = [], J_InnerHash = [],
      J_Sigs = [''1111111111111111111111111111111111111111111111111111111111111111111111111111111111111111111111111111111111111111111111111111111111''],
      J_In = [''2222222222222222222222222222222222222222222222222222222222222222''],
      J_Out = []\<rparr>"

text \<open>Input texts: a signature that is not hex, an address that does not decode, no
  signature for one input, and a text cut off in the middle.\<close>

definition text_bad_signature :: string where
  \<open>text_bad_signature =
     ''{"sigs": ["zz"], "in": ["2222222222222222222222222222222222222222222222222222222222222222"], "out": []}''\<close>

definition text_bad_address :: string where
  \<open>text_bad_address =
     ''{"sigs": [], "in": [], "out": [{"address": "xyz", "coins": 1, "hours": 2}]}''\<close>

definition document_bad_address :: TransactionJSON where
  "document_bad_address =
     \<lparr>J_Hash = [], J_InnerHash = [], J_Sigs = [], J_In = [],
      J_Out = [\<lparr>OJ_Address = ''xyz'', OJ_Coins = 1, OJ_Hours = 2\<rparr>]\<rparr>"

definition text_count_mismatch :: string where
  \<open>text_count_mismatch =
     ''{"sigs": [], "in": ["2222222222222222222222222222222222222222222222222222222222222222"], "out": []}''\<close>

definition text_malformed :: string where
  \<open>text_malformed = ''{"sigs": [''\<close>

text \<open>
  Two more documents as a parse would fill them: one output whose address decodes, and
  one input with no signature.
\<close>

definition document_good_address :: TransactionJSON where
  "document_good_address =
     \<lparr>J_Hash = [], J_InnerHash = [], J_Sigs = [], J_In = [],
      J_Out = [\<lparr>OJ_Address = ''01010101010101010101010101010101010101010115'',
               OJ_Coins = 100, OJ_Hours = 5\<rparr>]\<rparr>"

definition document_count_mismatch :: TransactionJSON where
  "document_count_mismatch =
     \<lparr>J_Hash = [], J_InnerHash = [], J_Sigs = [],
      J_In = [''2222222222222222222222222222222222222222222222222222222222222222''],
      J_Out = []\<rparr>"

section \<open>Loops and sequencing\<close>

text \<open>
  A loop that reads element \<open>i\<close> of a slice and writes element \<open>i\<close> of another one of
  the same length never panics, and leaves the image of the source, in the source's
  order.
\<close>

lemma then_do_Ok [simp]: "then_do (Ok x) f = f x"
  by (simp add: then_do_def)
lemma then_do_Error [simp]: "then_do (Error e) f = Error e"
  by (simp add: then_do_def)
lemma then_do_Panic [simp]: "then_do (Panic m) f = Panic m"
  by (simp add: then_do_def)

lemma for_each_append:
  "for_each body (xs @ ys) s = then_do (for_each body xs s) (for_each body ys)"
  by (induction xs arbitrary: s) (auto split: result.splits)

lemma fill_by_index:
  "n \<le> length src \<Longrightarrow> n \<le> length dst \<Longrightarrow>
   for_each (\<lambda>i d. then_do (index_get src i) (\<lambda>x. index_set d i (f x))) [0..<n] dst
     = Ok (map f (take n src) @ drop n dst)"
proof (induction n)
  case 0
  then show ?case by simp
next
  case (Suc n)
  then have n: "n < length src" "n < length dst" by simp_all
  have upd: "(map f (take n src) @ drop n dst)[n := f (src ! n)]
             = map f (take (Suc n) src) @ drop (Suc n) dst"
    using n by (simp add: take_Suc_conv_app_nth list_update_append Cons_nth_drop_Suc [symmetric])
  show ?case
    using Suc n upd by (simp add: for_each_append index_get_def index_set_def)
qed

lemma fill_all:
  "for_each (\<lambda>i d. then_do (index_get src i) (\<lambda>x. index_set d i (f x)))
     [0..<length src] (replicate (length src) z) = Ok (map f src)"
  using fill_by_index [of "length src" src "replicate (length src) z" f] by simp

lemma fill_Sigs:
  "k + length xs \<le> length (J_Sigs oj) \<Longrightarrow>
   for_each (\<lambda>(i, x) oj. then_do (index_set (J_Sigs oj) i (f x)) (\<lambda>l. Ok (oj\<lparr>J_Sigs := l\<rparr>)))
      (enumerate k xs) oj
     = Ok (oj\<lparr>J_Sigs := take k (J_Sigs oj) @ map f xs @ drop (k + length xs) (J_Sigs oj)\<rparr>)"
proof (induction xs arbitrary: k oj)
  case Nil
  then show ?case by simp
next
  case (Cons x xs)
  then show ?case
    by (simp add: index_set_def upd_conv_take_nth_drop take_Suc_conv_app_nth add.commute)
qed

lemma fill_In:
  "k + length xs \<le> length (J_In oj) \<Longrightarrow>
   for_each (\<lambda>(i, x) oj. then_do (index_set (J_In oj) i (f x)) (\<lambda>l. Ok (oj\<lparr>J_In := l\<rparr>)))
      (enumerate k xs) oj
     = Ok (oj\<lparr>J_In := take k (J_In oj) @ map f xs @ drop (k + length xs) (J_In oj)\<rparr>)"
proof (induction xs arbitrary: k oj)
  case Nil
  then show ?case by simp
next
  case (Cons x xs)
  then show ?case
    by (simp add: index_set_def upd_conv_take_nth_drop take_Suc_conv_app_nth add.commute)
qed

lemma fill_Out:
  "k + length xs \<le> length (J_Out oj) \<Longrightarrow>
   for_each (\<lambda>(i, x) oj. then_do (index_set (J_Out oj) i (f x)) (\<lambda>l. Ok (oj\<lparr>J_Out := l\<rparr>)))
      (enumerate k xs) oj
     = Ok (oj\<lparr>J_Out := take k (J_Out oj) @ map f xs @ drop (k + length xs) (J_Out oj)\<rparr>)"
proof (induction xs arbitrary: k oj)
  case Nil
  then show ?case by simp
next
  case (Cons x xs)
  then show ?case
    by (simp add: index_set_def upd_conv_take_nth_drop take_Suc_conv_app_nth add.commute)
qed

lemma TransactionToJSON_document:
  "Verify tx = None \<Longrightarrow>
   TransactionToJSON Verify Sig_Hex SHA256_Hex Address_String MarshalIndent tx =
     (case MarshalIndent
        \<lparr>J_Hash = [], J_InnerHash = [], J_Sigs = map Sig_Hex (Sigs tx),
         J_In = map SHA256_Hex (In tx),
         J_Out = map (NewTransactionOutputJSON Address_String) (Out tx)\<rparr> of
        None \<Rightarrow> Panic ''Cannot serialize transaction as JSON''
      | Some b \<Rightarrow> Ok b)"
  by (simp add: TransactionToJSON_def TransactionJSON_zero_def fill_Sigs fill_In fill_Out)

lemma decode_loop_results:
  "for_each (decode_loop_body SigFromHex oj) is tx = Error e \<Longrightarrow> e = ''invalid signature''"
  "for_each (decode_loop_body SigFromHex oj) is tx = Panic m \<Longrightarrow> m = ''index out of range''"
  by (induction "is" arbitrary: tx)
     (auto simp: decode_loop_body_def index_get_def index_set_def
           split: result.splits option.splits if_splits)

lemma steps_zero:
  "TransactionFromJSON_steps SigFromHex Transaction_Size TransactionJSON_zero TransactionJSON_zero
     = Ok Transaction_zero"
  by (simp add: TransactionFromJSON_steps_def TransactionJSON_zero_def)

lemma TransactionFromJSON_zero:
  "TransactionFromJSON json_Unmarshal SigFromHex Transaction_Size str = Ok Transaction_zero"
  by (simp add: TransactionFromJSON_def steps_zero)

lemma steps_results:
  "TransactionFromJSON_steps SigFromHex Transaction_Size oj txIn = Ok Transaction_zero
   \<or> TransactionFromJSON_steps SigFromHex Transaction_Size oj txIn = Error ''invalid signature''
   \<or> TransactionFromJSON_steps SigFromHex Transaction_Size oj txIn = Panic ''index out of range''"
  by (auto simp: TransactionFromJSON_steps_def then_do_def Let_def
           dest: decode_loop_results split: result.splits)

text \<open>
  A loop of the decoder that runs to its end has stayed inside the input field of the
  document and inside the signatures of the transaction, whose number it keeps.
\<close>

lemma decode_loop_body_Ok:
  "decode_loop_body SigFromHex oj i tx = Ok tx' \<Longrightarrow>
   i < length (J_In oj) \<and> i < length (Sigs tx) \<and> length (Sigs tx') = length (Sigs tx)"
  by (auto simp: decode_loop_body_def index_get_def index_set_def then_do_def
           split: if_splits option.splits)

lemma decode_loop_Ok:
  "for_each (decode_loop_body SigFromHex oj) [0..<n] tx = Ok tx' \<Longrightarrow>
   n \<le> length (J_In oj) \<and> n \<le> length (Sigs tx) \<and> length (Sigs tx') = length (Sigs tx)"
proof (induction n arbitrary: tx')
  case 0
  then show ?case by simp
next
  case (Suc n)
  from Suc.prems obtain tx'' where
    a: "for_each (decode_loop_body SigFromHex oj) [0..<n] tx = Ok tx''" and
    b: "decode_loop_body SigFromHex oj n tx'' = Ok tx'"
    by (auto simp: for_each_append then_do_def split: result.splits)
  from Suc.IH [OF a] decode_loop_body_Ok [OF b] show ?case by simp
qed

lemma steps_Ok_counts:
  assumes "is_Ok (TransactionFromJSON_steps SigFromHex Transaction_Size oj txIn)"
  shows "length (J_Sigs txIn) \<le> length (J_In oj) \<and> length (J_In txIn) \<le> length (J_Sigs oj)"
proof -
  let ?tx3 = "Transaction_zero\<lparr>Sigs := replicate (length (J_Sigs oj)) Sig_zero,
      In := replicate (length (J_In oj)) SHA256_zero,
      Out := replicate (length (J_Out oj)) TransactionOutput_zero\<rparr>"
  from assms obtain tx4 tx5 where
    a: "for_each (decode_loop_body SigFromHex oj) [0..<length (J_Sigs txIn)] ?tx3 = Ok tx4" and
    b: "for_each (decode_loop_body SigFromHex oj) [0..<length (J_In txIn)] tx4 = Ok tx5"
    by (auto simp: TransactionFromJSON_steps_def Let_def then_do_def split: result.splits)
  from decode_loop_Ok [OF a] decode_loop_Ok [OF b] show ?thesis by simp
qed

section \<open>Transaction status\<close>

text \<open>
  C7, as stated, asks that a confirmed status of height 0 be rejected by a recoverable
  error result and never by ending the process. At height 0 the constructor panics.
\<close>

theorem NewConfirmedTransactionStatus_zero_panics:
  "NewConfirmedTransactionStatus 0 = Panic ''Invalid confirmed transaction height''
   \<and> \<not> is_Error (NewConfirmedTransactionStatus 0)"
  by (simp add: NewConfirmedTransactionStatus_def)

text \<open>
  C7 (amended): every status the three constructors produce has exactly one of the flags
  unconfirmed, unknown, confirmed set. The unconfirmed and the unknown status have
  height 0 and only their own flag; for every height \<open>h \<ge> 1\<close> the confirmed status has
  only the confirmed flag and height \<open>h\<close>; at height 0 the constructor produces no
  status: it panics with the message "Invalid confirmed transaction height".
\<close>

theorem TransactionStatus_constructors:
  assumes "h \<noteq> 0"
  shows "NewUnconfirmedTransactionStatus =
           \<lparr>Unconfirmed = True, Unknown = False, Confirmed = False, Height = 0\<rparr>
       \<and> NewUnknownTransactionStatus =
           \<lparr>Unconfirmed = False, Unknown = True, Confirmed = False, Height = 0\<rparr>
       \<and> NewConfirmedTransactionStatus h =
           Ok \<lparr>Unconfirmed = False, Unknown = False, Confirmed = True, Height = h\<rparr>
       \<and> NewConfirmedTransactionStatus 0 = Panic ''Invalid confirmed transaction height''
       \<and> length (filter id [Unconfirmed NewUnconfirmedTransactionStatus,
            Unknown NewUnconfirmedTransactionStatus,
            Confirmed NewUnconfirmedTransactionStatus]) = 1
       \<and> length (filter id [Unconfirmed NewUnknownTransactionStatus,
            Unknown NewUnknownTransactionStatus,
            Confirmed NewUnknownTransactionStatus]) = 1
       \<and> (\<exists>s. NewConfirmedTransactionStatus h = Ok s
            \<and> length (filter id [Unconfirmed s, Unknown s, Confirmed s]) = 1)"
  using assms
  by (simp add: NewUnconfirmedTransactionStatus_def NewUnknownTransactionStatus_def
      NewConfirmedTransactionStatus_def)

text \<open>The constructors at height 7: the hypothesis of C7 (amended) holds there.\<close>

theorem TransactionStatus_constructors_witness:
  "(7 :: uint64) \<noteq> 0
   \<and> NewConfirmedTransactionStatus 7 =
       Ok \<lparr>Unconfirmed = False, Unknown = False, Confirmed = True, Height = 7\<rparr>
   \<and> NewConfirmedTransactionStatus 0 = Panic ''Invalid confirmed transaction height''"
proof -
  have h: "(7 :: uint64) \<noteq> 0" by simp
  from TransactionStatus_constructors [OF h] show ?thesis using h by simp
qed

section \<open>Readable mapper of a transaction\<close>

text \<open>
  C8: for every transaction \<open>t\<close>, \<open>NewReadableTransaction\<close> returns (it never panics) the
  signatures, the inputs and the outputs of \<open>t\<close> element by element in the order of
  \<open>t\<close>: signatures and inputs in hex, outputs through \<open>NewReadableTransactionOutput\<close>
  with the address as text; the lists have the lengths of \<open>t\<close>'s, and the length, the
  type, the coins and the hours are copied.
\<close>

theorem NewReadableTransaction_preserves_order:
  "NewReadableTransaction Sig_Hex SHA256_Hex Address_String Transaction_Hash t =
     Ok \<lparr>RT_Length = Length t, RT_Type = Type t,
         RT_Hash = SHA256_Hex (Transaction_Hash t),
         RT_InnerHash = SHA256_Hex (InnerHash t),
         RT_Sigs = map Sig_Hex (Sigs t), RT_In = map SHA256_Hex (In t),
         RT_Out = map (NewReadableTransactionOutput Address_String) (Out t)\<rparr>
   \<and> length (map Sig_Hex (Sigs t)) = length (Sigs t)
   \<and> length (map SHA256_Hex (In t)) = length (In t)
   \<and> length (map (NewReadableTransactionOutput Address_String) (Out t)) = length (Out t)
   \<and> map RTO_Address (map (NewReadableTransactionOutput Address_String) (Out t))
       = map (\<lambda>x. Address_String (Address x)) (Out t)
   \<and> map RTO_Coins (map (NewReadableTransactionOutput Address_String) (Out t))
       = map Coins (Out t)
   \<and> map RTO_Hours (map (NewReadableTransactionOutput Address_String) (Out t))
       = map Hours (Out t)"
  by (simp add: NewReadableTransaction_def fill_all NewReadableTransactionOutput_def comp_def)

section \<open>Chain snapshot\<close>

text \<open>
  C9: the snapshot leaves the visor as it found it, so a second call on the state the
  first one left returns what the first one returned: the same head, the same count of
  unspent outputs and the same count of unconfirmed transactions (or the same panic, on
  a chain with no head).
\<close>

theorem NewBlockchainMetadata_repeatable:
  "snd (NewBlockchainMetadata SHA256_Hex v) = v
   \<and> fst (NewBlockchainMetadata SHA256_Hex (snd (NewBlockchainMetadata SHA256_Hex v)))
       = fst (NewBlockchainMetadata SHA256_Hex v)
   \<and> fst (NewBlockchainMetadata SHA256_Hex v) =
       (if Blocks (Visor_Blockchain v) = [] then Panic ''index out of range''
        else Ok \<lparr>BM_Head =
                    NewReadableBlockHeader SHA256_Hex (Head (last (Blocks (Visor_Blockchain v)))),
                 BM_Unspents = of_nat (length (Unspent_Pool (Visor_Blockchain v))),
                 BM_Unconfirmed = of_nat (length (Visor_Unconfirmed_Txns v))\<rparr>)"
  by (simp add: NewBlockchainMetadata_def Blockchain_Head_def)

section \<open>Transaction outputs to and from JSON\<close>

text \<open>
  C10: for every output whose address decodes from its own text to itself,
  \<open>TransactionOutputFromJSON\<close> of \<open>NewTransactionOutputJSON\<close> succeeds and returns the
  output: address, coins and hours.
\<close>

theorem TransactionOutput_JSON_roundtrip:
  assumes "DecodeBase58Address (Address_String (Address ux)) = Some (Address ux)"
  shows "TransactionOutputFromJSON DecodeBase58Address
           (NewTransactionOutputJSON Address_String ux) = Ok ux"
  using assms
  by (simp add: TransactionOutputFromJSON_def NewTransactionOutputJSON_def
      TransactionOutputJSON_zero_def TransactionOutput_zero_def)

text \<open>C10 at an output of 100 coins and 5 hours, with the hex stand-in for the address text.\<close>

theorem TransactionOutput_JSON_roundtrip_witness:
  "DecodeAddress_hex
     (Address_String_hex
        (Address \<lparr>Address = [1,1,1,1,1,1,1,1,1,1,1,1,1,1,1,1,1,1,1,1,1],
                  Coins = 100, Hours = 5\<rparr>))
     = Some (Address \<lparr>Address = [1,1,1,1,1,1,1,1,1,1,1,1,1,1,1,1,1,1,1,1,1],
                       Coins = 100, Hours = 5\<rparr>)
   \<and> TransactionOutputFromJSON DecodeAddress_hex
       (NewTransactionOutputJSON Address_String_hex
          \<lparr>Address = [1,1,1,1,1,1,1,1,1,1,1,1,1,1,1,1,1,1,1,1,1], Coins = 100, Hours = 5\<rparr>)
     = Ok \<lparr>Address = [1,1,1,1,1,1,1,1,1,1,1,1,1,1,1,1,1,1,1,1,1], Coins = 100, Hours = 5\<rparr>"
proof -
  have enc: "Address_String_hex [1,1,1,1,1,1,1,1,1,1,1,1,1,1,1,1,1,1,1,1,1]
             = ''01010101010101010101010101010101010101010115''"
    by (simp add: Address_String_hex_def hex_encode_def hex_digit_def Address_checksum_def)
  have dec: "DecodeAddress_hex ''01010101010101010101010101010101010101010115''
             = Some [1,1,1,1,1,1,1,1,1,1,1,1,1,1,1,1,1,1,1,1,1]"
    by (simp add: DecodeAddress_hex_def from_hex_char_def Address_checksum_def)
  have h: "DecodeAddress_hex
     (Address_String_hex
        (Address \<lparr>Address = [1,1,1,1,1,1,1,1,1,1,1,1,1,1,1,1,1,1,1,1,1],
                  Coins = 100, Hours = 5\<rparr>))
     = Some (Address \<lparr>Address = [1,1,1,1,1,1,1,1,1,1,1,1,1,1,1,1,1,1,1,1,1],
                       Coins = 100, Hours = 5\<rparr>)"
    by (simp add: enc dec)
  from TransactionOutput_JSON_roundtrip
         [where DecodeBase58Address = DecodeAddress_hex
            and Address_String = Address_String_hex
            and ux = "\<lparr>Address = [1,1,1,1,1,1,1,1,1,1,1,1,1,1,1,1,1,1,1,1,1],
                      Coins = 100, Hours = 5\<rparr>", OF h] h
  show ?thesis by simp
qed

text \<open>
  C4: \<open>TransactionFromJSON\<close> has no loop over the outputs and never calls
  \<open>TransactionOutputFromJSON\<close>. On a text whose only output has the address "xyz",
  which does not decode, it returns a nil error, and so do its steps on the document
  such a text stands for; on the document whose output has an address that decodes they
  return the same zero transaction, which has no output.
\<close>

theorem TransactionFromJSON_ignores_outputs:
  "DecodeAddress_hex (OJ_Address (hd (J_Out document_bad_address))) = None
   \<and> TransactionFromJSON json_Unmarshal_by_value SigFromHex_hex Transaction_Size_bytes
        text_bad_address = Ok Transaction_zero
   \<and> TransactionFromJSON_steps SigFromHex_hex Transaction_Size_bytes
        document_bad_address document_bad_address = Ok Transaction_zero
   \<and> DecodeAddress_hex (OJ_Address (hd (J_Out document_good_address))) \<noteq> None
   \<and> TransactionFromJSON_steps SigFromHex_hex Transaction_Size_bytes
        document_good_address document_good_address = Ok Transaction_zero
   \<and> Out Transaction_zero = []"
  by (simp add: TransactionFromJSON_zero TransactionFromJSON_steps_def
      document_bad_address_def document_good_address_def DecodeAddress_hex_def
      from_hex_char_def Address_checksum_def Transaction_zero_def)

text \<open>
  X2: for every output entry, \<open>TransactionOutputFromJSON\<close> fails with the error
  "Adress decode fail", which names no index, when the address of the entry does not
  decode, and for an entry whose address decodes it returns the output with the decoded
  address and the coins and hours of the entry.
\<close>

theorem TransactionOutputFromJSON_cases:
  "(DecodeBase58Address (OJ_Address inp) = None \<longrightarrow>
      TransactionOutputFromJSON DecodeBase58Address inp = Error ''Adress decode fail'')
   \<and> (DecodeBase58Address (OJ_Address inp) = Some addr \<longrightarrow>
      TransactionOutputFromJSON DecodeBase58Address inp =
        Ok \<lparr>Address = addr, Coins = OJ_Coins inp, Hours = OJ_Hours inp\<rparr>)"
  by (simp add: TransactionOutputFromJSON_def TransactionOutput_zero_def)

text \<open>X2 at an entry whose address does not decode and at one whose address does.\<close>

theorem TransactionOutputFromJSON_cases_witness:
  "DecodeAddress_hex (OJ_Address \<lparr>OJ_Address = ''xyz'', OJ_Coins = 1, OJ_Hours = 2\<rparr>) = None
   \<and> TransactionOutputFromJSON DecodeAddress_hex
        \<lparr>OJ_Address = ''xyz'', OJ_Coins = 1, OJ_Hours = 2\<rparr> = Error ''Adress decode fail''
   \<and> DecodeAddress_hex
        (OJ_Address \<lparr>OJ_Address = ''01010101010101010101010101010101010101010115'',
                      OJ_Coins = 100, OJ_Hours = 5\<rparr>)
        = Some [1,1,1,1,1,1,1,1,1,1,1,1,1,1,1,1,1,1,1,1,1]
   \<and> TransactionOutputFromJSON DecodeAddress_hex
        \<lparr>OJ_Address = ''01010101010101010101010101010101010101010115'',
         OJ_Coins = 100, OJ_Hours = 5\<rparr>
        = Ok \<lparr>Address = [1,1,1,1,1,1,1,1,1,1,1,1,1,1,1,1,1,1,1,1,1], Coins = 100, Hours = 5\<rparr>"
proof -
  have bad: "DecodeAddress_hex
      (OJ_Address \<lparr>OJ_Address = ''xyz'', OJ_Coins = 1, OJ_Hours = 2\<rparr>) = None"
    by (simp add: DecodeAddress_hex_def from_hex_char_def)
  have good: "DecodeAddress_hex
        (OJ_Address \<lparr>OJ_Address = ''01010101010101010101010101010101010101010115'',
                      OJ_Coins = 100, OJ_Hours = 5\<rparr>)
        = Some [1,1,1,1,1,1,1,1,1,1,1,1,1,1,1,1,1,1,1,1,1]"
    by (simp add: DecodeAddress_hex_def from_hex_char_def Address_checksum_def)
  from TransactionOutputFromJSON_cases
         [of DecodeAddress_hex "\<lparr>OJ_Address = ''xyz'', OJ_Coins = 1, OJ_Hours = 2\<rparr>"]
       TransactionOutputFromJSON_cases
         [of DecodeAddress_hex
             "\<lparr>OJ_Address = ''01010101010101010101010101010101010101010115'',
               OJ_Coins = 100, OJ_Hours = 5\<rparr>"
             "[1,1,1,1,1,1,1,1,1,1,1,1,1,1,1,1,1,1,1,1,1]"]
       bad good
  show ?thesis by simp
qed

section \<open>Transactions to JSON\<close>

text \<open>
  C2, as stated, asks for an error result returned to the caller and no abort. On the
  transaction with no input \<open>TransactionToJSON\<close> panics; it returns nothing.
\<close>

theorem TransactionToJSON_no_inputs_panics:
  "TransactionToJSON Verify_structure hex_encode hex_encode Address_String_hex
     MarshalIndent_json example_tx_no_inputs
     = Panic ''Transaction Invalid: Cannot serialize to JSON''
   \<and> \<not> is_Error (TransactionToJSON Verify_structure hex_encode hex_encode
          Address_String_hex MarshalIndent_json example_tx_no_inputs)
   \<and> \<not> is_Ok (TransactionToJSON Verify_structure hex_encode hex_encode
          Address_String_hex MarshalIndent_json example_tx_no_inputs)"
  by (simp add: TransactionToJSON_def Verify_structure_def example_tx_no_inputs_def
      example_tx_def)

text \<open>
  C2 (amended): for every transaction that fails the external verification, encoding it
  to JSON never produces a document: \<open>TransactionToJSON\<close> panics with the message
  "Transaction Invalid: Cannot serialize to JSON" before it builds anything.
\<close>

theorem TransactionToJSON_unverified_panics:
  assumes "Verify tx \<noteq> None"
  shows "TransactionToJSON Verify Sig_Hex SHA256_Hex Address_String MarshalIndent tx
           = Panic ''Transaction Invalid: Cannot serialize to JSON''"
  using assms by (simp add: TransactionToJSON_def)

text \<open>
  C2 (amended) at the three transactions the structural check refuses: no input, two
  signatures for one input, the same input twice.
\<close>

theorem TransactionToJSON_unverified_panics_witness:
  "Verify_structure example_tx_no_inputs \<noteq> None
   \<and> Verify_structure example_tx_two_signatures \<noteq> None
   \<and> Verify_structure example_tx_duplicate_input \<noteq> None
   \<and> TransactionToJSON Verify_structure hex_encode hex_encode Address_String_hex
        MarshalIndent_json example_tx_two_signatures
        = Panic ''Transaction Invalid: Cannot serialize to JSON''
   \<and> TransactionToJSON Verify_structure hex_encode hex_encode Address_String_hex
        MarshalIndent_json example_tx_duplicate_input
        = Panic ''Transaction Invalid: Cannot serialize to JSON''"
proof -
  have a: "Verify_structure example_tx_no_inputs \<noteq> None"
    by (simp add: Verify_structure_def example_tx_def example_tx_no_inputs_def)
  have b: "Verify_structure example_tx_two_signatures \<noteq> None"
    by (simp add: Verify_structure_def example_tx_def example_tx_two_signatures_def)
  have c: "Verify_structure example_tx_duplicate_input \<noteq> None"
    by (simp add: Verify_structure_def example_tx_def example_tx_duplicate_input_def)
  from a b c
    TransactionToJSON_unverified_panics
      [where Verify = Verify_structure and tx = example_tx_two_signatures
         and Sig_Hex = hex_encode and SHA256_Hex = hex_encode
         and Address_String = Address_String_hex and MarshalIndent = MarshalIndent_json, OF b]
    TransactionToJSON_unverified_panics
      [where Verify = Verify_structure and tx = example_tx_duplicate_input
         and Sig_Hex = hex_encode and SHA256_Hex = hex_encode
         and Address_String = Address_String_hex and MarshalIndent = MarshalIndent_json, OF c]
  show ?thesis by simp
qed

text \<open>
  X1: \<open>TransactionToJSON\<close> panics on a transaction that the external verification
  refuses; on every other one it hands to \<open>json.MarshalIndent\<close> the document whose
  signatures and inputs are those of the transaction in hex, in their order, and whose
  outputs are its outputs through \<open>NewTransactionOutputJSON\<close>, in their order; the hash
  and the inner hash of the document are the empty text. It returns the text of that
  document, and panics with "Cannot serialize transaction as JSON" when the library
  reports an error.
\<close>

theorem TransactionToJSON_verified_document:
  "TransactionToJSON Verify Sig_Hex SHA256_Hex Address_String MarshalIndent tx =
     (if Verify tx \<noteq> None then Panic ''Transaction Invalid: Cannot serialize to JSON''
      else case MarshalIndent
        \<lparr>J_Hash = [], J_InnerHash = [], J_Sigs = map Sig_Hex (Sigs tx),
         J_In = map SHA256_Hex (In tx),
         J_Out = map (NewTransactionOutputJSON Address_String) (Out tx)\<rparr> of
        None \<Rightarrow> Panic ''Cannot serialize transaction as JSON''
      | Some b \<Rightarrow> Ok b)"
  by (simp add: TransactionToJSON_def TransactionJSON_zero_def fill_Sigs fill_In fill_Out)

section \<open>Transactions from JSON\<close>

text \<open>
  C1: for every transaction and every external verification that accepts it, encoding
  the transaction and decoding the document returns the zero transaction with a nil
  error, whatever the signatures, inputs and outputs of the transaction: the zero
  transaction has none. (When the verification refuses the transaction, or the library
  cannot write the document, the encoder panics and nothing is decoded.)
\<close>

theorem roundtrip_loses_transaction:
  "then_do
     (TransactionToJSON Verify Sig_Hex SHA256_Hex Address_String MarshalIndent tx)
     (TransactionFromJSON json_Unmarshal SigFromHex Transaction_Size)
   = (if Verify tx \<noteq> None then Panic ''Transaction Invalid: Cannot serialize to JSON''
      else case MarshalIndent
             \<lparr>J_Hash = [], J_InnerHash = [], J_Sigs = map Sig_Hex (Sigs tx),
              J_In = map SHA256_Hex (In tx),
              J_Out = map (NewTransactionOutputJSON Address_String) (Out tx)\<rparr> of
             None \<Rightarrow> Panic ''Cannot serialize transaction as JSON''
           | Some b \<Rightarrow> Ok Transaction_zero)
   \<and> Sigs Transaction_zero = [] \<and> In Transaction_zero = [] \<and> Out Transaction_zero = []"
proof (cases "Verify tx = None")
  case True
  show ?thesis
    using True
    by (simp add: TransactionToJSON_document [of Verify tx] TransactionFromJSON_zero
        Transaction_zero_def split: option.splits)
next
  case False
  then show ?thesis
    by (simp add: TransactionToJSON_def Transaction_zero_def)
qed

text \<open>
  C3: on a text whose signature "zz" is not hex, \<open>TransactionFromJSON\<close> returns a nil
  error, and on the document of a well-formed transaction its steps fail with "invalid
  signature": the first loop decodes the input field, 32 bytes, as a signature.
\<close>

theorem TransactionFromJSON_reads_wrong_field:
  "SigFromHex_hex ''zz'' = None
   \<and> TransactionFromJSON json_Unmarshal_by_value SigFromHex_hex Transaction_Size_bytes
        text_bad_signature = Ok Transaction_zero
   \<and> SigFromHex_hex (hd (J_Sigs example_document)) \<noteq> None
   \<and> TransactionFromJSON_steps SigFromHex_hex Transaction_Size_bytes
        example_document example_document = Error ''invalid signature''"
proof -
  have a: "SigFromHex_hex ''zz'' = None"
    by (simp add: SigFromHex_hex_def from_hex_char_def)
  have b: "SigFromHex_hex (hd (J_Sigs example_document)) \<noteq> None"
    by (simp add: example_document_def SigFromHex_hex_def from_hex_char_def)
  have c: "SigFromHex_hex (J_In example_document ! 0) = None"
    by (simp add: example_document_def SigFromHex_hex_def from_hex_char_def)
  have d: "TransactionFromJSON_steps SigFromHex_hex Transaction_Size_bytes
        example_document example_document = Error ''invalid signature''"
    using c by (simp add: TransactionFromJSON_steps_def decode_loop_body_def index_get_def
        example_document_def)
  show ?thesis using a b d by (simp add: TransactionFromJSON_zero)
qed

text \<open>
  C5: on a text with no signature and one input \<open>TransactionFromJSON\<close> returns the zero
  transaction with a nil error: the document is never filled, so no loop runs. On the
  document such a text stands for, its steps fail with "invalid signature", the error
  of a hex decode, not with an error for the counts.
\<close>

theorem TransactionFromJSON_accepts_count_mismatch:
  "length (J_In document_count_mismatch) \<noteq> length (J_Sigs document_count_mismatch)
   \<and> TransactionFromJSON json_Unmarshal_by_value SigFromHex_hex Transaction_Size_bytes
        text_count_mismatch = Ok Transaction_zero
   \<and> \<not> is_Error (TransactionFromJSON json_Unmarshal_by_value SigFromHex_hex
          Transaction_Size_bytes text_count_mismatch)
   \<and> TransactionFromJSON_steps SigFromHex_hex Transaction_Size_bytes
        document_count_mismatch document_count_mismatch = Error ''invalid signature''"
  by (simp add: TransactionFromJSON_zero TransactionFromJSON_steps_def
      decode_loop_body_def index_get_def document_count_mismatch_def SigFromHex_hex_def
      from_hex_char_def)

text \<open>
  X3: on a filled document whose count of inputs differs from its count of signatures,
  the steps of \<open>TransactionFromJSON\<close> never return a transaction: they end with the
  error "invalid signature" or with a panic for an index out of range. They compare no
  counts; the loops run over one field and index the other.
\<close>

theorem TransactionFromJSON_steps_count_mismatch:
  assumes "length (J_In d) \<noteq> length (J_Sigs d)"
  shows "\<not> is_Ok (TransactionFromJSON_steps SigFromHex Transaction_Size d d)
       \<and> (TransactionFromJSON_steps SigFromHex Transaction_Size d d = Error ''invalid signature''
          \<or> TransactionFromJSON_steps SigFromHex Transaction_Size d d = Panic ''index out of range'')"
proof -
  have n: "\<not> is_Ok (TransactionFromJSON_steps SigFromHex Transaction_Size d d)"
    using steps_Ok_counts [of SigFromHex Transaction_Size d d] assms by auto
  with steps_results [of SigFromHex Transaction_Size d d] show ?thesis by auto
qed

text \<open>X3 at the document with one input and no signature.\<close>

theorem TransactionFromJSON_steps_count_mismatch_witness:
  "length (J_In document_count_mismatch) \<noteq> length (J_Sigs document_count_mismatch)
   \<and> TransactionFromJSON_steps SigFromHex_hex Transaction_Size_bytes
        document_count_mismatch document_count_mismatch = Error ''invalid signature''"
proof -
  have h: "length (J_In document_count_mismatch) \<noteq> length (J_Sigs document_count_mismatch)"
    by (simp add: document_count_mismatch_def)
  have e: "TransactionFromJSON_steps SigFromHex_hex Transaction_Size_bytes
        document_count_mismatch document_count_mismatch \<noteq> Panic ''index out of range''"
    by (simp add: TransactionFromJSON_steps_def decode_loop_body_def index_get_def
        document_count_mismatch_def SigFromHex_hex_def from_hex_char_def)
  from TransactionFromJSON_steps_count_mismatch
         [where d = document_count_mismatch and SigFromHex = SigFromHex_hex
            and Transaction_Size = Transaction_Size_bytes, OF h] h e
  show ?thesis by simp
qed

text \<open>
  C6: on a text cut off in the middle \<open>json.Unmarshal\<close> reports an error, and
  \<open>TransactionFromJSON\<close> returns the zero transaction with a nil error all the same.
\<close>

theorem TransactionFromJSON_drops_parse_error:
  "json_Unmarshal_by_value text_malformed TransactionJSON_zero \<noteq> None
   \<and> TransactionFromJSON json_Unmarshal_by_value SigFromHex_hex Transaction_Size_bytes
        text_malformed = Ok Transaction_zero"
  by (simp add: TransactionFromJSON_zero json_Unmarshal_by_value_def)

end
